theory Spec2Isabelle
  imports Complex_Main
begin

section \<open>The window manager of the desktop shell\<close>

text \<open>
  The component \<open>App\<close> keeps its state in React state cells and changes it through
  callbacks. A callback reads the cells as they were at the last render (its closure) and
  queues updates; a queued value replaces the cell, a queued function is applied to the
  cell's latest pending value. Every callback lists all the cells it reads among its
  dependencies, so at the start of an event the closure is the current state. The model
  passes both: \<open>snap\<close> is the closure, \<open>cur\<close> the state with the updates queued so far.
  A callback called from another one (\<open>focusWindow\<close> inside \<open>toggleMinimize\<close>, both
  inside \<open>openApp\<close>) shares the closure of the event and continues on \<open>cur\<close>.
  The updater function that \<open>toggleMinimize\<close> and \<open>toggleFullScreen\<close> pass to
  \<open>setWindows\<close> sets other cells; it is taken to run when \<open>setWindows\<close> is called, so
  the updates it queues come before those the callback queues after that call. One
  command is one event, followed by a render.

  JavaScript numbers are modelled as reals for geometry, as integers for the stacking
  order and as naturals for the window counter.
\<close>

subsection \<open>Data\<close>

record Bounds =
  b_x :: real
  b_y :: real
  b_width :: real
  b_height :: real

text \<open>
  \<open>WindowInstance\<close>, with the fields that \<open>openApp\<close> fills in. The fields \<open>id\<close>, \<open>x\<close>
  and \<open>y\<close> are called \<open>win_id\<close>, \<open>win_x\<close> and \<open>win_y\<close> here. The rendering payload
  (\<open>component\<close>, \<open>icon\<close>) is copied from the application definition and read by no
  operation; it is left out.
\<close>

record WindowInstance =
  win_id :: string
  appId :: string
  title :: string
  win_x :: real
  win_y :: real
  width :: real
  height :: real
  zIndex :: int
  isMinimized :: bool
  isMaximized :: bool
  isFullScreen :: bool
  preMaximizedState :: "Bounds option"
  filePath :: "string option"

type_synonym WindowPair = "string list"

record AppDefinition =
  app_id :: string
  app_name :: string
  defaultSize :: "(real \<times> real) option"
  allowMultiInstance :: bool

record wm_state =
  windows :: "WindowInstance list"
  activeWindowId :: "string option"
  nextZIndex :: int
  launchpadOpen :: bool
  nextWindowId :: nat
  fullScreenWindowId :: "string option"
  windowPairs :: "WindowPair list"
  pairingWindowId :: "string option"

definition initial :: wm_state where
  "initial = \<lparr>windows = [], activeWindowId = None, nextZIndex = 10, launchpadOpen = False,
     nextWindowId = 0, fullScreenWindowId = None, windowPairs = [], pairingWindowId = None\<rparr>"

subsection \<open>JavaScript helpers\<close>

text \<open>A \<open>string | null\<close> in a condition: null and the empty string are falsy.\<close>

definition truthy :: "string option \<Rightarrow> bool" where
  "truthy v = (case v of None \<Rightarrow> False | Some t \<Rightarrow> t \<noteq> [])"

text \<open>\<open>v ?? ''\<close>\<close>

definition orEmpty :: "string option \<Rightarrow> string" where
  "orEmpty v = (case v of None \<Rightarrow> [] | Some t \<Rightarrow> t)"

text \<open>The decimal digits of a number, for the template \<open>`win-${nextWindowId}`\<close>.\<close>

definition digit :: "nat \<Rightarrow> char" where
  "digit d = (if d = 0 then CHR ''0'' else if d = 1 then CHR ''1'' else if d = 2 then CHR ''2''
     else if d = 3 then CHR ''3'' else if d = 4 then CHR ''4'' else if d = 5 then CHR ''5''
     else if d = 6 then CHR ''6'' else if d = 7 then CHR ''7'' else if d = 8 then CHR ''8''
     else CHR ''9'')"

function decimal :: "nat \<Rightarrow> string" where
  "decimal n = (if n < 10 then [digit n] else decimal (n div 10) @ [digit (n mod 10)])"
  by pat_completeness auto
termination
  by (relation "measure (\<lambda>n. n)") auto

declare decimal.simps [simp del]

subsection \<open>Groups and promotion\<close>

text \<open>\<open>windowPairs.find(p => p.includes(id))\<close>\<close>

definition pairOf :: "string \<Rightarrow> wm_state \<Rightarrow> WindowPair option" where
  "pairOf i s = find (\<lambda>p. i \<in> set p) (windowPairs s)"

text \<open>\<open>pair || [id]\<close>: an array is truthy, also when empty.\<close>

definition groupOf :: "string \<Rightarrow> wm_state \<Rightarrow> string list" where
  "groupOf i s = (case pairOf i s of Some p \<Rightarrow> p | None \<Rightarrow> [i])"

text \<open>
  \<open>reduce((prev, current) => (prev.zIndex > current.zIndex) ? prev : current)\<close> on a
  non-empty array, without an initial value.
\<close>

definition pickTop :: "WindowInstance \<Rightarrow> WindowInstance \<Rightarrow> WindowInstance" where
  "pickTop prev current = (if zIndex prev > zIndex current then prev else current)"

definition remainingWindows :: "string list \<Rightarrow> wm_state \<Rightarrow> WindowInstance list" where
  "remainingWindows ids snap =
     filter (\<lambda>w. win_id w \<notin> set ids \<and> \<not> isMinimized w) (windows snap)"

definition promoted :: "string list \<Rightarrow> wm_state \<Rightarrow> string option" where
  "promoted ids snap =
     (case remainingWindows ids snap of
        [] \<Rightarrow> None
      | w # ws \<Rightarrow> Some (win_id (foldl pickTop w ws)))"

subsection \<open>Focus\<close>

definition focusWindowIn :: "wm_state \<Rightarrow> string \<Rightarrow> wm_state \<Rightarrow> wm_state" where
  "focusWindowIn snap i cur =
     (if activeWindowId snap = Some i \<and> \<not> launchpadOpen snap then cur
      else cur\<lparr>pairingWindowId := None,
               launchpadOpen := False,
               activeWindowId := Some i,
               windows := map (\<lambda>win. if win_id win = i then win\<lparr>zIndex := nextZIndex snap\<rparr> else win)
                            (windows cur),
               nextZIndex := nextZIndex cur + 1\<rparr>)"

definition focusWindow :: "string \<Rightarrow> wm_state \<Rightarrow> wm_state" where
  "focusWindow i s = focusWindowIn s i s"

subsection \<open>Minimize\<close>

text \<open>
  One round of the \<open>forEach\<close> in \<open>toggleMinimize\<close>. The list \<open>wins\<close> of the source is
  \<open>windows cur\<close>. The stacking update that \<open>focusWindow\<close> queues is applied here at once
  and not after the whole loop; it changes \<open>zIndex\<close> only, which the loop neither reads
  nor writes, so the result is the same.
\<close>

definition toggleOne :: "wm_state \<Rightarrow> wm_state \<Rightarrow> string \<Rightarrow> wm_state" where
  "toggleOne snap cur winId =
     (case find (\<lambda>win. win_id win = winId) (windows cur) of
        None \<Rightarrow> cur
      | Some windowToToggle \<Rightarrow>
          let c1 = (if isFullScreen windowToToggle then cur\<lparr>fullScreenWindowId := None\<rparr> else cur);
              c2 = (if isMinimized windowToToggle then focusWindowIn snap winId c1 else c1)
          in c2\<lparr>windows := map (\<lambda>win. if win_id win = winId
                                        then win\<lparr>isMinimized := \<not> isMinimized win, isFullScreen := False\<rparr>
                                        else win) (windows c2)\<rparr>)"

definition isMinimizing :: "string \<Rightarrow> wm_state \<Rightarrow> bool" where
  "isMinimizing i snap =
     (case find (\<lambda>w. win_id w = i) (windows snap) of None \<Rightarrow> False | Some w \<Rightarrow> \<not> isMinimized w)"

definition toggleMinimizeIn :: "wm_state \<Rightarrow> string \<Rightarrow> wm_state \<Rightarrow> wm_state" where
  "toggleMinimizeIn snap i cur =
     (let idsToToggle = groupOf i snap;
          c1 = foldl (toggleOne snap) cur idsToToggle
      in if isMinimizing i snap \<and> orEmpty (activeWindowId snap) \<in> set idsToToggle
         then c1\<lparr>activeWindowId := promoted idsToToggle snap\<rparr>
         else c1)"

definition toggleMinimize :: "string \<Rightarrow> wm_state \<Rightarrow> wm_state" where
  "toggleMinimize i s = toggleMinimizeIn s i s"

subsection \<open>Launch\<close>

text \<open>The viewport (\<open>window.innerWidth\<close>, \<open>window.innerHeight\<close>) is an argument.\<close>

definition newWindow :: "real \<Rightarrow> real \<Rightarrow> AppDefinition \<Rightarrow> string option \<Rightarrow> wm_state \<Rightarrow> WindowInstance" where
  "newWindow innerWidth innerHeight app fp snap =
     (let openWindowsCount = length (filter (\<lambda>win. \<not> isMinimized win) (windows snap));
          staggerOffset = 25 * real (openWindowsCount mod 10);
          defaultWidth = (case defaultSize app of Some (w, h) \<Rightarrow> w | None \<Rightarrow> 720);
          defaultHeight = (case defaultSize app of Some (w, h) \<Rightarrow> h | None \<Rightarrow> 540);
          menuBarHeight = 28
      in \<lparr>win_id = ''win-'' @ decimal (nextWindowId snap),
          appId = app_id app,
          title = app_name app,
          win_x = innerWidth / 2 - defaultWidth / 2 + staggerOffset,
          win_y = max (menuBarHeight + 10) (((innerHeight - defaultHeight) / 2) - 40 + staggerOffset),
          width = defaultWidth,
          height = defaultHeight,
          zIndex = nextZIndex snap,
          isMinimized = False,
          isMaximized = False,
          isFullScreen = False,
          preMaximizedState = None,
          filePath = fp\<rparr>)"

definition openApp :: "real \<Rightarrow> real \<Rightarrow> AppDefinition \<Rightarrow> string option \<Rightarrow> wm_state \<Rightarrow> wm_state" where
  "openApp innerWidth innerHeight app fp s =
     (let c0 = s\<lparr>launchpadOpen := False\<rparr> in
      case find (\<lambda>win. appId win = app_id app \<and> \<not> allowMultiInstance app) (windows s) of
        Some existingWindow \<Rightarrow>
          let c1 = (if isMinimized existingWindow
                    then toggleMinimizeIn s (win_id existingWindow) c0
                    else focusWindowIn s (win_id existingWindow) c0)
          in if truthy fp
             then c1\<lparr>windows := map (\<lambda>win. if win_id win = win_id existingWindow
                                            then win\<lparr>filePath := fp\<rparr> else win) (windows c1)\<rparr>
             else c1
      | None \<Rightarrow>
          let nw = newWindow innerWidth innerHeight app fp s
          in c0\<lparr>windows := windows c0 @ [nw],
                activeWindowId := Some (win_id nw),
                nextZIndex := nextZIndex c0 + 1,
                nextWindowId := nextWindowId c0 + 1\<rparr>)"

subsection \<open>Close\<close>

definition closeWindow :: "string \<Rightarrow> wm_state \<Rightarrow> wm_state" where
  "closeWindow i s =
     (let idsToClose = groupOf i s;
          c1 = (if list_ex (\<lambda>winId. Some winId = fullScreenWindowId s) idsToClose
                then s\<lparr>fullScreenWindowId := None\<rparr> else s);
          c2 = c1\<lparr>windows := filter (\<lambda>win. win_id win \<notin> set idsToClose) (windows c1),
                  windowPairs := filter (\<lambda>p. i \<notin> set p) (windowPairs c1)\<rparr>
      in if orEmpty (activeWindowId s) \<in> set idsToClose
         then c2\<lparr>activeWindowId := promoted idsToClose s\<rparr>
         else c2)"

subsection \<open>Geometry\<close>

text \<open>\<open>{ ...win, ...win.preMaximizedState }\<close>: the snapshot's fields, when there is one.\<close>

definition spreadBounds :: "Bounds option \<Rightarrow> WindowInstance \<Rightarrow> WindowInstance" where
  "spreadBounds b win =
     (case b of None \<Rightarrow> win
      | Some g \<Rightarrow> win\<lparr>win_x := b_x g, win_y := b_y g, width := b_width g, height := b_height g\<rparr>)"

definition boundsOf :: "WindowInstance \<Rightarrow> Bounds" where
  "boundsOf win = \<lparr>b_x = win_x win, b_y = win_y win, b_width = width win, b_height = height win\<rparr>"

definition fullScreenWin :: "WindowInstance \<Rightarrow> WindowInstance" where
  "fullScreenWin win =
     (if isFullScreen win
      then spreadBounds (preMaximizedState win) (win\<lparr>isFullScreen := False\<rparr>)
      else win\<lparr>isFullScreen := True,
               preMaximizedState := (if isMaximized win then preMaximizedState win
                                     else Some (boundsOf win))\<rparr>)"

text \<open>
  The map callback of \<open>toggleFullScreen\<close> sets the fullscreen id at every window whose
  id matches, in list order.
\<close>

definition toggleFullScreen :: "string \<Rightarrow> wm_state \<Rightarrow> wm_state" where
  "toggleFullScreen i s =
     (let c1 = s\<lparr>windows := map (\<lambda>win. if win_id win \<noteq> i then win else fullScreenWin win) (windows s),
                 fullScreenWindowId :=
                   foldl (\<lambda>f win. if win_id win \<noteq> i then f
                                   else if isFullScreen win then None else Some i)
                         (fullScreenWindowId s) (windows s)\<rparr>
      in focusWindowIn s i c1)"

definition maximizeWin :: "WindowInstance \<Rightarrow> WindowInstance" where
  "maximizeWin win =
     (if isMaximized win
      then win\<lparr>isMaximized := False,
               win_x := (case preMaximizedState win of Some g \<Rightarrow> b_x g | None \<Rightarrow> win_x win),
               win_y := (case preMaximizedState win of Some g \<Rightarrow> b_y g | None \<Rightarrow> win_y win),
               width := (case preMaximizedState win of Some g \<Rightarrow> b_width g | None \<Rightarrow> width win),
               height := (case preMaximizedState win of Some g \<Rightarrow> b_height g | None \<Rightarrow> height win)\<rparr>
      else win\<lparr>isMaximized := True, preMaximizedState := Some (boundsOf win)\<rparr>)"

definition toggleMaximize :: "string \<Rightarrow> wm_state \<Rightarrow> wm_state" where
  "toggleMaximize i s =
     (let c1 = s\<lparr>windows := map (\<lambda>win. if win_id win \<noteq> i then win else maximizeWin win) (windows s)\<rparr>
      in focusWindowIn s i c1)"

definition updateWindowPosition :: "string \<Rightarrow> real \<Rightarrow> real \<Rightarrow> wm_state \<Rightarrow> wm_state" where
  "updateWindowPosition i newX newY s =
     (case find (\<lambda>w. win_id w = i) (windows s) of
        None \<Rightarrow> s
      | Some mover \<Rightarrow>
          let deltaX = newX - win_x mover;
              deltaY = newY - win_y mover;
              idsToMove = groupOf i s
          in s\<lparr>windows := map (\<lambda>win. if win_id win \<in> set idsToMove
                                      then win\<lparr>win_x := win_x win + deltaX, win_y := win_y win + deltaY\<rparr>
                                      else win) (windows s)\<rparr>)"

definition updateWindowSize :: "string \<Rightarrow> real \<Rightarrow> real \<Rightarrow> wm_state \<Rightarrow> wm_state" where
  "updateWindowSize i newWidth newHeight s =
     s\<lparr>windows := map (\<lambda>win. if win_id win = i then win\<lparr>width := newWidth, height := newHeight\<rparr> else win)
                     (windows s)\<rparr>"

subsection \<open>Pairing\<close>

text \<open>
  \<open>p !== existingPair\<close> and \<open>p === existingPair\<close> compare arrays by identity. Each array
  of the pair set is an object of its own, so the test singles out the one element that
  \<open>find\<close> returned: the first pair that contains the id.
\<close>

fun dropFound :: "string \<Rightarrow> WindowPair list \<Rightarrow> WindowPair list" where
  "dropFound i [] = []"
| "dropFound i (p # ps) = (if i \<in> set p then ps else p # dropFound i ps)"

fun extendFound :: "string \<Rightarrow> string \<Rightarrow> WindowPair list \<Rightarrow> WindowPair list" where
  "extendFound i t [] = []"
| "extendFound i t (p # ps) = (if i \<in> set p then (p @ [t]) # ps else p # extendFound i t ps)"

definition startPairing :: "string \<Rightarrow> wm_state \<Rightarrow> wm_state" where
  "startPairing i s =
     (case pairOf i s of
        Some existingPair \<Rightarrow> s\<lparr>windowPairs := dropFound i (windowPairs s)\<rparr>
      | None \<Rightarrow> s\<lparr>pairingWindowId := Some i\<rparr>)"

definition completePairing :: "string \<Rightarrow> wm_state \<Rightarrow> wm_state" where
  "completePairing targetId s =
     (let c1 = (if truthy (pairingWindowId s) \<and> pairingWindowId s \<noteq> Some targetId
                then (let src = orEmpty (pairingWindowId s) in
                      case pairOf src s of
                        Some existingPair \<Rightarrow> s\<lparr>windowPairs := extendFound src targetId (windowPairs s)\<rparr>
                      | None \<Rightarrow> s\<lparr>windowPairs := windowPairs s @ [[src, targetId]]\<rparr>)
                else s)
      in c1\<lparr>pairingWindowId := None\<rparr>)"

subsection \<open>The command surface\<close>

text \<open>
  The callbacks handed to the presentation components, and the three inline handlers
  that change the launcher flag and the pending pairing source.
\<close>

datatype command =
    OpenApp AppDefinition "string option"
  | CloseWindow string
  | FocusWindow string
  | ToggleMinimize string
  | ToggleMaximize string
  | ToggleFullScreen string
  | UpdateWindowPosition string real real
  | UpdateWindowSize string real real
  | StartPairing string
  | CompletePairing string
  | LaunchpadClick
  | LaunchpadClose
  | DesktopClick

fun exec :: "real \<Rightarrow> real \<Rightarrow> wm_state \<Rightarrow> command \<Rightarrow> wm_state" where
  "exec vw vh s (OpenApp app fp) = openApp vw vh app fp s"
| "exec vw vh s (CloseWindow i) = closeWindow i s"
| "exec vw vh s (FocusWindow i) = focusWindow i s"
| "exec vw vh s (ToggleMinimize i) = toggleMinimize i s"
| "exec vw vh s (ToggleMaximize i) = toggleMaximize i s"
| "exec vw vh s (ToggleFullScreen i) = toggleFullScreen i s"
| "exec vw vh s (UpdateWindowPosition i nx ny) = updateWindowPosition i nx ny s"
| "exec vw vh s (UpdateWindowSize i nw nh) = updateWindowSize i nw nh s"
| "exec vw vh s (StartPairing i) = startPairing i s"
| "exec vw vh s (CompletePairing i) = completePairing i s"
| "exec vw vh s LaunchpadClick = s\<lparr>launchpadOpen := \<not> launchpadOpen s\<rparr>"
| "exec vw vh s LaunchpadClose = s\<lparr>launchpadOpen := False\<rparr>"
| "exec vw vh s DesktopClick =
     (if truthy (pairingWindowId s) then s\<lparr>pairingWindowId := None\<rparr> else s)"

definition run :: "real \<Rightarrow> real \<Rightarrow> command list \<Rightarrow> wm_state" where
  "run vw vh cs = foldl (exec vw vh) initial cs"

text \<open>Two application definitions for the concrete runs below.\<close>

definition notesApp :: AppDefinition where
  "notesApp = \<lparr>app_id = ''notes'', app_name = ''Notes'', defaultSize = None,
     allowMultiInstance = False\<rparr>"

definition terminalApp :: AppDefinition where
  "terminalApp = \<lparr>app_id = ''terminal'', app_name = ''Terminal'', defaultSize = Some (600, 400),
     allowMultiInstance = True\<rparr>"

lemmas wm_defs =
  truthy_def orEmpty_def digit_def
  decimal.simps pairOf_def groupOf_def pickTop_def remainingWindows_def promoted_def
  focusWindowIn_def focusWindow_def toggleOne_def isMinimizing_def toggleMinimizeIn_def
  toggleMinimize_def newWindow_def openApp_def closeWindow_def spreadBounds_def boundsOf_def
  fullScreenWin_def toggleFullScreen_def maximizeWin_def toggleMaximize_def
  updateWindowPosition_def updateWindowSize_def startPairing_def completePairing_def Let_def

section \<open>The AI service: credential rotation\<close>













section \<open>Command sequences of the window manager\<close>

subsection \<open>Sample command sequences\<close>

text \<open>Command sequences for the concrete runs below; \<open>win-0\<close>, \<open>win-1\<close>, ... are the ids that
  \<open>openApp\<close> hands out.\<close>

definition notesOnly :: "command list" where
  "notesOnly = [OpenApp notesApp None]"



definition maximizedAndMoved :: "command list" where
  "maximizedAndMoved =
     [OpenApp notesApp None, ToggleMaximize ''win-0'', UpdateWindowPosition ''win-0'' 0 0]"

definition twoTerminals :: "command list" where
  "twoTerminals = [OpenApp terminalApp None, OpenApp terminalApp None]"

definition minimizedAbove :: "command list" where
  "minimizedAbove = [OpenApp terminalApp None, OpenApp terminalApp None, ToggleMinimize ''win-1'']"





subsection \<open>Guarded command sequences\<close>


section \<open>Concrete runs\<close>

text \<open>
  The states that the sample command sequences reach, for a viewport of 1000 by 800.
  They are computed once here and used by the concrete instances below.
\<close>

lemma run_append: "run vw vh (cs @ ds) = foldl (exec vw vh) (run vw vh cs) ds"
  by (simp add: run_def)

lemma run_notesOnly:
  "run 1000 800 notesOnly =
     \<lparr>windows =
     [\<lparr>win_id = ''win-0'', appId = ''notes'', title = ''Notes'',
     win_x = 140, win_y = 90, width = 720, height = 540, zIndex = 10,
     isMinimized = False, isMaximized = False, isFullScreen = False,
     preMaximizedState = None, filePath = None\<rparr>],
     activeWindowId = Some ''win-0'', nextZIndex = 11,
     launchpadOpen = False, nextWindowId = 1, fullScreenWindowId = None,
     windowPairs = [], pairingWindowId = None\<rparr>"
  by (simp add: run_def initial_def wm_defs notesOnly_def notesApp_def)


lemma run_maximizedAndMoved:
  "run 1000 800 maximizedAndMoved =
     \<lparr>windows =
     [\<lparr>win_id = ''win-0'', appId = ''notes'', title = ''Notes'', win_x = 0,
     win_y = 0, width = 720, height = 540, zIndex = 10,
     isMinimized = False, isMaximized = True, isFullScreen = False,
     preMaximizedState =
     Some \<lparr>b_x = 140, b_y = 90, b_width = 720, b_height = 540\<rparr>,
     filePath = None\<rparr>],
     activeWindowId = Some ''win-0'', nextZIndex = 11,
     launchpadOpen = False, nextWindowId = 1, fullScreenWindowId = None,
     windowPairs = [], pairingWindowId = None\<rparr>"
  by (simp add: run_def initial_def wm_defs maximizedAndMoved_def notesApp_def)


lemma run_twoTerminals:
  "run 1000 800 twoTerminals =
     \<lparr>windows =
     [\<lparr>win_id = ''win-0'', appId = ''terminal'', title = ''Terminal'',
     win_x = 200, win_y = 160, width = 600, height = 400, zIndex = 10,
     isMinimized = False, isMaximized = False, isFullScreen = False,
     preMaximizedState = None, filePath = None\<rparr>,
     \<lparr>win_id = ''win-1'', appId = ''terminal'', title = ''Terminal'',
     win_x = 225, win_y = 185, width = 600, height = 400, zIndex = 11,
     isMinimized = False, isMaximized = False, isFullScreen = False,
     preMaximizedState = None, filePath = None\<rparr>],
     activeWindowId = Some ''win-1'', nextZIndex = 12,
     launchpadOpen = False, nextWindowId = 2, fullScreenWindowId = None,
     windowPairs = [], pairingWindowId = None\<rparr>"
  by (simp add: run_def initial_def wm_defs twoTerminals_def terminalApp_def)

lemma run_minimizedAbove:
  "run 1000 800 minimizedAbove =
     \<lparr>windows =
     [\<lparr>win_id = ''win-0'', appId = ''terminal'', title = ''Terminal'',
     win_x = 200, win_y = 160, width = 600, height = 400, zIndex = 10,
     isMinimized = False, isMaximized = False, isFullScreen = False,
     preMaximizedState = None, filePath = None\<rparr>,
     \<lparr>win_id = ''win-1'', appId = ''terminal'', title = ''Terminal'',
     win_x = 225, win_y = 185, width = 600, height = 400, zIndex = 11,
     isMinimized = True, isMaximized = False, isFullScreen = False,
     preMaximizedState = None, filePath = None\<rparr>],
     activeWindowId = Some ''win-0'', nextZIndex = 12,
     launchpadOpen = False, nextWindowId = 2, fullScreenWindowId = None,
     windowPairs = [], pairingWindowId = None\<rparr>"
  by (simp add: run_def initial_def wm_defs minimizedAbove_def terminalApp_def)





section \<open>Saved bounds\<close>




section \<open>Credential rotation\<close>

subsection \<open>The attempt loop\<close>
















section \<open>Fullscreen round trip\<close>

text \<open>
  Claim C7, as the code has it. For a window that is not fullscreen, \<open>toggleFullScreen\<close>
  twice ends not fullscreen. If the window was not maximized, the first call captures its
  bounds and the second restores exactly these, the bounds before fullscreen. If the
  window was maximized, the first call keeps the snapshot taken when it was maximized and
  the second restores that snapshot: the bounds before maximizing, which are the bounds
  before fullscreen only if the window was not moved or resized in between.
\<close>

theorem C7_fullscreen_twice:
  assumes "k < length (windows s)" and "win_id (windows s ! k) = i"
    and "\<not> isFullScreen (windows s ! k)"
  shows "isFullScreen (windows (toggleFullScreen i s) ! k) \<and>
         \<not> isFullScreen (windows (toggleFullScreen i (toggleFullScreen i s)) ! k) \<and>
         (\<not> isMaximized (windows s ! k) \<longrightarrow>
            preMaximizedState (windows (toggleFullScreen i s) ! k) = Some (boundsOf (windows s ! k)) \<and>
            boundsOf (windows (toggleFullScreen i (toggleFullScreen i s)) ! k) = boundsOf (windows s ! k)) \<and>
         (isMaximized (windows s ! k) \<longrightarrow>
            preMaximizedState (windows (toggleFullScreen i s) ! k) = preMaximizedState (windows s ! k) \<and>
            boundsOf (windows (toggleFullScreen i (toggleFullScreen i s)) ! k)
              = (case preMaximizedState (windows s ! k) of
                   Some g \<Rightarrow> g | None \<Rightarrow> boundsOf (windows s ! k)))"
  using assms
  by (auto simp: toggleFullScreen_def focusWindowIn_def Let_def fullScreenWin_def spreadBounds_def
      boundsOf_def split: option.splits)

theorem C7_fullscreen_twice_witness:
  "(0::nat) < length (windows (run 1000 800 notesOnly)) \<and>
   win_id (windows (run 1000 800 notesOnly) ! 0) = ''win-0'' \<and>
   \<not> isFullScreen (windows (run 1000 800 notesOnly) ! 0) \<and>
   \<not> isMaximized (windows (run 1000 800 notesOnly) ! 0) \<and>
   boundsOf (windows (toggleFullScreen ''win-0'' (toggleFullScreen ''win-0''
       (run 1000 800 notesOnly))) ! 0)
     = \<lparr>b_x = 140, b_y = 90, b_width = 720, b_height = 540\<rparr> \<and>
   boundsOf (windows (run 1000 800 notesOnly) ! 0)
     = \<lparr>b_x = 140, b_y = 90, b_width = 720, b_height = 540\<rparr> \<and>
   (0::nat) < length (windows (run 1000 800 maximizedAndMoved)) \<and>
   win_id (windows (run 1000 800 maximizedAndMoved) ! 0) = ''win-0'' \<and>
   \<not> isFullScreen (windows (run 1000 800 maximizedAndMoved) ! 0) \<and>
   isMaximized (windows (run 1000 800 maximizedAndMoved) ! 0) \<and>
   preMaximizedState (windows (run 1000 800 maximizedAndMoved) ! 0)
     = Some \<lparr>b_x = 140, b_y = 90, b_width = 720, b_height = 540\<rparr> \<and>
   boundsOf (windows (toggleFullScreen ''win-0'' (toggleFullScreen ''win-0''
       (run 1000 800 maximizedAndMoved))) ! 0)
     = \<lparr>b_x = 140, b_y = 90, b_width = 720, b_height = 540\<rparr>"
  using C7_fullscreen_twice [of 0 "run 1000 800 notesOnly" "''win-0''"]
    C7_fullscreen_twice [of 0 "run 1000 800 maximizedAndMoved" "''win-0''"]
  by (simp add: run_notesOnly run_maximizedAndMoved wm_defs)

text \<open>
  Claim C7 as the specification words it fails: open Notes, maximize it, move it to the
  origin, then toggle fullscreen twice. Before fullscreen the window is at the origin;
  afterwards it is back where it was before it was maximized.
\<close>

theorem C7_pre_fullscreen_bounds_counterexample:
  "boundsOf (windows (run 1000 800 maximizedAndMoved) ! 0)
     = \<lparr>b_x = 0, b_y = 0, b_width = 720, b_height = 540\<rparr> \<and>
   boundsOf (windows (run 1000 800
       (maximizedAndMoved @ [ToggleFullScreen ''win-0'', ToggleFullScreen ''win-0''])) ! 0)
     = \<lparr>b_x = 140, b_y = 90, b_width = 720, b_height = 540\<rparr>"
  by (simp add: run_append run_maximizedAndMoved wm_defs)

section \<open>Moving a group\<close>




section \<open>Ids that are not in the registry\<close>

subsection \<open>Lists without the id\<close>

lemma map_no_match: "\<forall>w\<in>set ws. win_id w \<noteq> i \<Longrightarrow> map (\<lambda>win. if win_id win = i then f win else win) ws = ws"
  by (induction ws) auto

lemma map_no_match': "\<forall>w\<in>set ws. win_id w \<noteq> i \<Longrightarrow> map (\<lambda>win. if win_id win \<noteq> i then win else f win) ws = ws"
  by (induction ws) auto

lemma foldl_no_match: "\<forall>w\<in>set ws. win_id w \<noteq> i \<Longrightarrow>
   foldl (\<lambda>f win. if win_id win \<noteq> i then f else g win) z ws = z"
  by (induction ws arbitrary: z) auto

lemma find_absent: "\<forall>w\<in>set ws. win_id w \<noteq> i \<Longrightarrow> find (\<lambda>w. win_id w = i) ws = None"
  by (simp add: find_None_iff)

lemma filter_absent: "\<forall>w\<in>set ws. win_id w \<noteq> i \<Longrightarrow> filter (\<lambda>win. win_id win \<noteq> i) ws = ws"
  by (induction ws) auto

lemma filter_unpaired: "\<forall>p\<in>set ps. i \<notin> set p \<Longrightarrow> filter (\<lambda>p. i \<notin> set p) ps = ps"
  by (induction ps) auto

lemma extendFound_has:
  "find (\<lambda>p. src \<in> set p) ps = Some p \<Longrightarrow> \<exists>q\<in>set (extendFound src t ps). t \<in> set q"
  by (induction ps) (auto split: if_splits)


text \<open>
  Claim C2, as the code has it. No operation raises a fault: the model has no error
  value because the source has no throw and no unguarded dereference. For an id that is
  not in the registry, \<open>updateWindowPosition\<close> and \<open>updateWindowSize\<close> leave the state as it
  is. If the id is in no pair either, \<open>toggleMinimize\<close> leaves the state as it is, and so
  does \<open>closeWindow\<close> unless the id is the fullscreen id or the active id (the empty string
  counting as the active id when there is none); \<open>startPairing\<close> records the id as the
  pending source. \<open>focusWindow\<close> has no existence check: unless the id is already active
  with the launcher closed, it makes the id the active id, advances the z counter, closes
  the launcher and cancels a pending pairing; \<open>toggleMaximize\<close> and \<open>toggleFullScreen\<close> end
  with \<open>focusWindow\<close> and do the same. \<open>completePairing\<close> leaves the window list as it
  is and, with a pending source other than the id, records a pair that contains the id.
\<close>

theorem C2_absent_id:
  assumes absent: "\<forall>w \<in> set (windows s). win_id w \<noteq> i"
  shows "updateWindowPosition i newX newY s = s \<and>
         updateWindowSize i newWidth newHeight s = s \<and>
         ((\<forall>p \<in> set (windowPairs s). i \<notin> set p) \<longrightarrow>
            toggleMinimize i s = s \<and>
            (fullScreenWindowId s \<noteq> Some i \<and> orEmpty (activeWindowId s) \<noteq> i \<longrightarrow> closeWindow i s = s) \<and>
            startPairing i s = s\<lparr>pairingWindowId := Some i\<rparr>) \<and>
         focusWindow i s =
           (if activeWindowId s = Some i \<and> \<not> launchpadOpen s then s
            else s\<lparr>pairingWindowId := None, launchpadOpen := False, activeWindowId := Some i,
                   nextZIndex := nextZIndex s + 1\<rparr>) \<and>
         toggleMaximize i s = focusWindow i s \<and>
         toggleFullScreen i s = focusWindow i s \<and>
         windows (completePairing i s) = windows s \<and>
         (truthy (pairingWindowId s) \<and> pairingWindowId s \<noteq> Some i \<longrightarrow>
            (\<exists>p \<in> set (windowPairs (completePairing i s)). i \<in> set p))"
proof (intro conjI impI)
  show "updateWindowPosition i newX newY s = s"
    using absent by (simp add: updateWindowPosition_def find_absent)
  show "updateWindowSize i newWidth newHeight s = s"
    using absent by (simp add: updateWindowSize_def map_no_match)
  show f: "focusWindow i s =
           (if activeWindowId s = Some i \<and> \<not> launchpadOpen s then s
            else s\<lparr>pairingWindowId := None, launchpadOpen := False, activeWindowId := Some i,
                   nextZIndex := nextZIndex s + 1\<rparr>)"
    using absent by (simp add: focusWindow_def focusWindowIn_def map_no_match)
  show "toggleMaximize i s = focusWindow i s"
    using absent by (simp add: toggleMaximize_def focusWindow_def map_no_match')
  show "toggleFullScreen i s = focusWindow i s"
    using absent by (simp add: toggleFullScreen_def focusWindow_def map_no_match' foldl_no_match)
  show "windows (completePairing i s) = windows s"
    by (simp add: completePairing_def Let_def split: option.splits)
next
  assume "truthy (pairingWindowId s) \<and> pairingWindowId s \<noteq> Some i"
  then show "\<exists>p \<in> set (windowPairs (completePairing i s)). i \<in> set p"
    by (auto simp: completePairing_def Let_def pairOf_def split: option.splits dest: extendFound_has)
next
  assume up: "\<forall>p \<in> set (windowPairs s). i \<notin> set p"
  then have fnone: "find (\<lambda>p. i \<in> set p) (windowPairs s) = None"
    by (simp add: find_None_iff)
  then have g: "groupOf i s = [i]" by (simp add: groupOf_def pairOf_def)
  show "toggleMinimize i s = s"
    using absent g by (simp add: toggleMinimize_def toggleMinimizeIn_def toggleOne_def isMinimizing_def find_absent)
  show "startPairing i s = s\<lparr>pairingWindowId := Some i\<rparr>"
    using fnone by (simp add: startPairing_def pairOf_def)
  show "closeWindow i s = s" if "fullScreenWindowId s \<noteq> Some i \<and> orEmpty (activeWindowId s) \<noteq> i"
    using absent g that up by (auto simp add: closeWindow_def filter_absent filter_unpaired)
qed



theorem C2_absent_id_witness:
  "map win_id (windows (run 1000 800 notesOnly)) = [''win-0''] \<and>
   windowPairs (run 1000 800 notesOnly) = [] \<and>
   updateWindowPosition ''win-7'' 5 5 (run 1000 800 notesOnly) = run 1000 800 notesOnly \<and>
   updateWindowSize ''win-7'' 5 5 (run 1000 800 notesOnly) = run 1000 800 notesOnly \<and>
   toggleMinimize ''win-7'' (run 1000 800 notesOnly) = run 1000 800 notesOnly \<and>
   closeWindow ''win-7'' (run 1000 800 notesOnly) = run 1000 800 notesOnly \<and>
   activeWindowId (focusWindow ''win-7'' (run 1000 800 notesOnly)) = Some ''win-7'' \<and>
   toggleMaximize ''win-7'' (run 1000 800 notesOnly) = focusWindow ''win-7'' (run 1000 800 notesOnly) \<and>
   toggleFullScreen ''win-7'' (run 1000 800 notesOnly) = focusWindow ''win-7'' (run 1000 800 notesOnly)"
proof -
  have h: "\<forall>w \<in> set (windows (run 1000 800 notesOnly)). win_id w \<noteq> ''win-7''"
    by (simp add: run_notesOnly)
  have e: "map win_id (windows (run 1000 800 notesOnly)) = [''win-0'']"
    "windowPairs (run 1000 800 notesOnly) = []"
    "fullScreenWindowId (run 1000 800 notesOnly) = None"
    "activeWindowId (run 1000 800 notesOnly) = Some ''win-0''"
    by (simp_all add: run_notesOnly)
  show ?thesis
    using e C2_absent_id [OF h, of 5 5 5 5] by (simp add: orEmpty_def)
qed

text \<open>
  Claim C2 as the specification words it fails. With one window \<open>win-0\<close> open,
  \<open>focusWindow\<close> on the absent id \<open>win-7\<close> makes it the active id and advances the z
  counter, and \<open>completePairing\<close> on \<open>win-7\<close> with \<open>win-0\<close> pending records the pair
  \<open>[win-0, win-7]\<close>.
\<close>

theorem C2_silent_no_op_counterexample:
  "map win_id (windows (run 1000 800 notesOnly)) = [''win-0''] \<and>
   activeWindowId (run 1000 800 notesOnly) = Some ''win-0'' \<and>
   nextZIndex (run 1000 800 notesOnly) = 11 \<and>
   activeWindowId (run 1000 800 (notesOnly @ [FocusWindow ''win-7''])) = Some ''win-7'' \<and>
   nextZIndex (run 1000 800 (notesOnly @ [FocusWindow ''win-7''])) = 12 \<and>
   windowPairs (run 1000 800 (notesOnly @ [StartPairing ''win-0''])) = [] \<and>
   windowPairs (run 1000 800 (notesOnly @ [StartPairing ''win-0'', CompletePairing ''win-7'']))
     = [[''win-0'', ''win-7'']]"
  by (simp add: run_append run_notesOnly wm_defs)

section \<open>Focus and the stacking order\<close>

subsection \<open>The stacking order stays below the counter\<close>

lemma focusWindowIn_z:
  assumes "nextZIndex snap \<le> nextZIndex cur" and "\<forall>w\<in>set (windows cur). zIndex w < nextZIndex cur"
  shows "nextZIndex snap \<le> nextZIndex (focusWindowIn snap i cur) \<and>
         (\<forall>w\<in>set (windows (focusWindowIn snap i cur)). zIndex w < nextZIndex (focusWindowIn snap i cur))"
  using assms by (auto simp: focusWindowIn_def)

lemma toggleOne_z:
  assumes "nextZIndex snap \<le> nextZIndex cur" and "\<forall>w\<in>set (windows cur). zIndex w < nextZIndex cur"
  shows "nextZIndex snap \<le> nextZIndex (toggleOne snap cur winId) \<and>
         (\<forall>w\<in>set (windows (toggleOne snap cur winId)). zIndex w < nextZIndex (toggleOne snap cur winId))"
proof (cases "find (\<lambda>win. win_id win = winId) (windows cur)")
  case None
  then show ?thesis using assms by (simp add: toggleOne_def)
next
  case (Some w)
  define c1 where "c1 = (if isFullScreen w then cur\<lparr>fullScreenWindowId := None\<rparr> else cur)"
  define c2 where "c2 = (if isMinimized w then focusWindowIn snap winId c1 else c1)"
  have c1: "nextZIndex snap \<le> nextZIndex c1 \<and> (\<forall>w\<in>set (windows c1). zIndex w < nextZIndex c1)"
    using assms by (simp add: c1_def)
  then have c2: "nextZIndex snap \<le> nextZIndex c2 \<and> (\<forall>w\<in>set (windows c2). zIndex w < nextZIndex c2)"
    using focusWindowIn_z[of snap c1 winId] by (simp add: c2_def)
  have "toggleOne snap cur winId = c2\<lparr>windows := map (\<lambda>win. if win_id win = winId
                                        then win\<lparr>isMinimized := \<not> isMinimized win, isFullScreen := False\<rparr>
                                        else win) (windows c2)\<rparr>"
    using Some by (simp add: toggleOne_def c1_def c2_def Let_def)
  then show ?thesis using c2 by auto
qed

lemma foldl_toggleOne_z:
  assumes "nextZIndex snap \<le> nextZIndex cur" and "\<forall>w\<in>set (windows cur). zIndex w < nextZIndex cur"
  shows "nextZIndex snap \<le> nextZIndex (foldl (toggleOne snap) cur ids) \<and>
         (\<forall>w\<in>set (windows (foldl (toggleOne snap) cur ids)).
            zIndex w < nextZIndex (foldl (toggleOne snap) cur ids))"
  using assms
proof (induction ids arbitrary: cur)
  case Nil
  then show ?case by simp
next
  case (Cons a ids)
  from toggleOne_z[OF Cons.prems, of a] Cons.IH[of "toggleOne snap cur a"]
  show ?case by simp
qed

lemma toggleMinimizeIn_z:
  assumes "nextZIndex snap \<le> nextZIndex cur" and "\<forall>w\<in>set (windows cur). zIndex w < nextZIndex cur"
  shows "\<forall>w\<in>set (windows (toggleMinimizeIn snap i cur)). zIndex w < nextZIndex (toggleMinimizeIn snap i cur)"
  using foldl_toggleOne_z[OF assms, of "groupOf i snap"]
  by (simp add: toggleMinimizeIn_def Let_def)

lemma openApp_z:
  assumes "\<forall>w\<in>set (windows s). zIndex w < nextZIndex s"
  shows "\<forall>w\<in>set (windows (openApp vw vh app fp s)). zIndex w < nextZIndex (openApp vw vh app fp s)"
proof (cases "find (\<lambda>win. appId win = app_id app \<and> \<not> allowMultiInstance app) (windows s)")
  case None
  then show ?thesis using assms by (auto simp: openApp_def Let_def newWindow_def)
next
  case (Some e)
  have a: "nextZIndex s \<le> nextZIndex (s\<lparr>launchpadOpen := False\<rparr>)"
       "\<forall>w\<in>set (windows (s\<lparr>launchpadOpen := False\<rparr>)). zIndex w < nextZIndex (s\<lparr>launchpadOpen := False\<rparr>)"
    using assms by simp_all
  show ?thesis
    using Some toggleMinimizeIn_z[OF a, of "win_id e"] focusWindowIn_z[OF a, of "win_id e"]
    by (auto simp: openApp_def Let_def)
qed

lemma exec_z:
  assumes "\<forall>w\<in>set (windows s). zIndex w < nextZIndex s"
  shows "\<forall>w\<in>set (windows (exec vw vh s c)). zIndex w < nextZIndex (exec vw vh s c)"
proof (cases c)
  case (OpenApp app fp)
  then show ?thesis using openApp_z[OF assms] by simp
next
  case (CloseWindow i)
  then show ?thesis using assms by (auto simp: closeWindow_def Let_def)
next
  case (FocusWindow i)
  then show ?thesis using focusWindowIn_z[of s s i] assms by (simp add: focusWindow_def)
next
  case (ToggleMinimize i)
  then show ?thesis using toggleMinimizeIn_z[of s s i] assms by (simp add: toggleMinimize_def)
next
  case (ToggleMaximize i)
  have "\<forall>w\<in>set (windows (s\<lparr>windows := map (\<lambda>win. if win_id win \<noteq> i then win else maximizeWin win) (windows s)\<rparr>)).
     zIndex w < nextZIndex (s\<lparr>windows := map (\<lambda>win. if win_id win \<noteq> i then win else maximizeWin win) (windows s)\<rparr>)"
    using assms by (auto simp: maximizeWin_def)
  then show ?thesis using ToggleMaximize
      focusWindowIn_z[of s "s\<lparr>windows := map (\<lambda>win. if win_id win \<noteq> i then win else maximizeWin win) (windows s)\<rparr>" i]
    by (simp add: toggleMaximize_def Let_def)
next
  case (ToggleFullScreen i)
  define c1 where "c1 = s\<lparr>windows := map (\<lambda>win. if win_id win \<noteq> i then win else fullScreenWin win) (windows s),
                 fullScreenWindowId :=
                   foldl (\<lambda>f win. if win_id win \<noteq> i then f
                                   else if isFullScreen win then None else Some i)
                         (fullScreenWindowId s) (windows s)\<rparr>"
  have "nextZIndex s \<le> nextZIndex c1" "\<forall>w\<in>set (windows c1). zIndex w < nextZIndex c1"
    using assms by (auto simp: c1_def fullScreenWin_def spreadBounds_def split: option.splits)
  then show ?thesis using ToggleFullScreen focusWindowIn_z[of s c1 i]
    by (simp add: toggleFullScreen_def Let_def c1_def)
next
  case (UpdateWindowPosition i nx ny)
  then show ?thesis using assms
    by (auto simp: updateWindowPosition_def Let_def split: option.splits)
next
  case (UpdateWindowSize i nw nh)
  then show ?thesis using assms by (auto simp: updateWindowSize_def)
next
  case (StartPairing i)
  then show ?thesis using assms by (auto simp: startPairing_def split: option.splits)
next
  case (CompletePairing i)
  then show ?thesis using assms by (auto simp: completePairing_def Let_def split: option.splits)
next
  case LaunchpadClick
  then show ?thesis using assms by simp
next
  case LaunchpadClose
  then show ?thesis using assms by simp
next
  case DesktopClick
  then show ?thesis using assms by simp
qed

lemma foldl_exec_z:
  "\<forall>w\<in>set (windows s). zIndex w < nextZIndex s \<Longrightarrow>
   \<forall>w\<in>set (windows (foldl (exec vw vh) s cs)). zIndex w < nextZIndex (foldl (exec vw vh) s cs)"
proof (induction cs arbitrary: s)
  case Nil
  then show ?case by simp
next
  case (Cons c cs)
  from Cons.IH[OF exec_z[OF Cons.prems, of vw vh c]] show ?case by simp
qed

lemma run_z: "\<forall>w\<in>set (windows (run vw vh cs)). zIndex w < nextZIndex (run vw vh cs)"
  unfolding run_def by (rule foldl_exec_z) (simp add: initial_def)

lemma focusWindow_raises:
  assumes inv: "\<forall>w\<in>set (windows s). zIndex w < nextZIndex s"
    and act: "\<not> (activeWindowId s = Some i \<and> \<not> launchpadOpen s)"
    and w: "w \<in> set (windows (focusWindow i s))" and v: "v \<in> set (windows (focusWindow i s))"
    and wi: "win_id w = i" and vi: "win_id v \<noteq> i"
  shows "zIndex v < zIndex w"
proof -
  have ws: "windows (focusWindow i s)
      = map (\<lambda>win. if win_id win = i then win\<lparr>zIndex := nextZIndex s\<rparr> else win) (windows s)"
  proof (cases "activeWindowId s = Some i")
    case True
    then have "launchpadOpen s" using act by simp
    then show ?thesis by (simp add: focusWindow_def focusWindowIn_def)
  next
    case False
    then show ?thesis by (simp add: focusWindow_def focusWindowIn_def)
  qed
  obtain w0 where w0: "w0 \<in> set (windows s)"
      "w = (if win_id w0 = i then w0\<lparr>zIndex := nextZIndex s\<rparr> else w0)"
    using w unfolding ws by auto
  obtain v0 where v0: "v0 \<in> set (windows s)"
      "v = (if win_id v0 = i then v0\<lparr>zIndex := nextZIndex s\<rparr> else v0)"
    using v unfolding ws by auto
  have "zIndex w = nextZIndex s" using w0(2) wi by (simp split: if_splits)
  moreover have "v = v0" using v0(2) vi by (simp split: if_splits)
  ultimately show ?thesis using inv v0(1) by simp
qed


text \<open>
  Claim C3, as the code has it, for every state that the commands reach from the initial
  state. When the id is already the active id and the launcher is closed, \<open>focusWindow\<close>
  returns at once and changes nothing. In every other case, afterwards every window with
  that id has a \<open>zIndex\<close> strictly greater than every window with another id, minimized
  or not.
\<close>

theorem C3_focus_raises:
  "(activeWindowId (run vw vh cs) = Some i \<and> \<not> launchpadOpen (run vw vh cs) \<longrightarrow>
      focusWindow i (run vw vh cs) = run vw vh cs) \<and>
   (\<not> (activeWindowId (run vw vh cs) = Some i \<and> \<not> launchpadOpen (run vw vh cs)) \<longrightarrow>
      (\<forall>w \<in> set (windows (focusWindow i (run vw vh cs))).
       \<forall>v \<in> set (windows (focusWindow i (run vw vh cs))).
         win_id w = i \<and> win_id v \<noteq> i \<longrightarrow> zIndex v < zIndex w))"
proof (intro conjI impI ballI)
  assume "activeWindowId (run vw vh cs) = Some i \<and> \<not> launchpadOpen (run vw vh cs)"
  then show "focusWindow i (run vw vh cs) = run vw vh cs"
    by (simp add: focusWindow_def focusWindowIn_def)
next
  fix w v
  assume "\<not> (activeWindowId (run vw vh cs) = Some i \<and> \<not> launchpadOpen (run vw vh cs))"
    and "w \<in> set (windows (focusWindow i (run vw vh cs)))"
    and "v \<in> set (windows (focusWindow i (run vw vh cs)))"
    and "win_id w = i \<and> win_id v \<noteq> i"
  then show "zIndex v < zIndex w"
    using focusWindow_raises[OF run_z, of vw vh cs i w v] by blast
qed


theorem C3_focus_raises_witness:
  "activeWindowId (run 1000 800 twoTerminals) = Some ''win-1'' \<and>
   map win_id (windows (focusWindow ''win-0'' (run 1000 800 twoTerminals))) = [''win-0'', ''win-1''] \<and>
   zIndex (windows (focusWindow ''win-0'' (run 1000 800 twoTerminals)) ! 1)
   < zIndex (windows (focusWindow ''win-0'' (run 1000 800 twoTerminals)) ! 0)"
proof -
  have a: "activeWindowId (run 1000 800 twoTerminals) = Some ''win-1''"
    by (simp add: run_twoTerminals)
  have m: "map win_id (windows (focusWindow ''win-0'' (run 1000 800 twoTerminals))) = [''win-0'', ''win-1'']"
    by (simp add: run_twoTerminals wm_defs)
  have n: "windows (focusWindow ''win-0'' (run 1000 800 twoTerminals)) ! 0
        \<in> set (windows (focusWindow ''win-0'' (run 1000 800 twoTerminals)))"
    "windows (focusWindow ''win-0'' (run 1000 800 twoTerminals)) ! 1
        \<in> set (windows (focusWindow ''win-0'' (run 1000 800 twoTerminals)))"
    "win_id (windows (focusWindow ''win-0'' (run 1000 800 twoTerminals)) ! 0) = ''win-0''"
    "win_id (windows (focusWindow ''win-0'' (run 1000 800 twoTerminals)) ! 1) \<noteq> ''win-0''"
    by (simp_all add: run_twoTerminals wm_defs)
  have na: "\<not> (activeWindowId (run 1000 800 twoTerminals) = Some ''win-0'' \<and>
      \<not> launchpadOpen (run 1000 800 twoTerminals))"
    by (simp add: run_twoTerminals)
  show ?thesis
    using a m n na C3_focus_raises [of 1000 800 twoTerminals "''win-0''"]
    by blast
qed

text \<open>
  Claim C3 as the specification words it fails: open two terminals and minimize the
  second, \<open>win-1\<close>. The first, \<open>win-0\<close>, is promoted to active with its old \<open>zIndex\<close> 10,
  below the minimized window's 11. \<open>focusWindow\<close> on \<open>win-0\<close> then returns at once.
\<close>

theorem C3_strict_maximum_counterexample:
  "activeWindowId (run 1000 800 minimizedAbove) = Some ''win-0'' \<and>
   map win_id (windows (run 1000 800 (minimizedAbove @ [FocusWindow ''win-0''])))
     = [''win-0'', ''win-1''] \<and>
   map zIndex (windows (run 1000 800 (minimizedAbove @ [FocusWindow ''win-0''])))
     = [10, 11] \<and>
   map isMinimized (windows (run 1000 800 (minimizedAbove @ [FocusWindow ''win-0''])))
     = [False, True]"
  by (simp add: run_append run_minimizedAbove wm_defs)

section \<open>Promotion of the next window\<close>

subsection \<open>What the reduce picks\<close>












section \<open>Pairs\<close>

subsection \<open>Pairs and the pending source under each command\<close>



















section \<open>Single-instance applications\<close>

subsection \<open>The reuse path of openApp\<close>




















end
